theory Spec2Isabelle
  imports Main "HOL-Library.AList"
begin

section \<open>File selection (install.py, lines 46--65)\<close>

subsection \<open>Shell-style matching: Python's \<open>fnmatch.fnmatch\<close>\<close>

text \<open>
  \<open>fnmatch\<close> is a function of Python's standard library, not of the repository. The model
  follows \<open>fnmatch.translate\<close> on a POSIX host (\<open>os.path.normcase\<close> is the identity):
  \<open>*\<close> matches any run of characters (the separator \<open>/\<close> included), \<open>?\<close> one character,
  \<open>[seq]\<close> and \<open>[!seq]\<close> a character class with ranges, every other character itself, and
  the whole name has to match. A \<open>[\<close> without a closing \<open>]\<close> is a literal. A range whose
  bounds are reversed, on which \<open>re.compile\<close> raises, is the empty range here.
\<close>

datatype glob_item = Star | AnyChar | Lit char | CharClass bool "(char \<times> char) list"

fun parse_set :: "string \<Rightarrow> (char \<times> char) list" where
  "parse_set (a # b # c # rest) =
     (if b = CHR ''-'' then (a, c) # parse_set rest else (a, a) # parse_set (b # c # rest))"
| "parse_set (a # rest) = (a, a) # parse_set rest"
| "parse_set [] = []"

definition skip_char :: "char \<Rightarrow> string \<Rightarrow> string" where
  "skip_char x r = (case r of c # t \<Rightarrow> if c = x then t else r | [] \<Rightarrow> r)"

definition class_end :: "string \<Rightarrow> (string \<times> string) option" where
  \<comment> \<open>\<open>r\<close> is the pattern after a \<open>[\<close>: skip a leading \<open>!\<close>, then a leading \<open>]\<close>, then look
      for the closing \<open>]\<close>; the result is the text of the class and what follows it.\<close>
  "class_end r =
     (let after = dropWhile (\<lambda>c. c \<noteq> CHR '']'') (skip_char CHR '']'' (skip_char CHR ''!'' r))
      in case after of
           [] \<Rightarrow> None
         | _ # rest \<Rightarrow> Some (take (length r - length after) r, rest))"

function parse_pattern :: "string \<Rightarrow> glob_item list" where
  "parse_pattern [] = []"
| "parse_pattern (c # r) =
     (if c = CHR ''*'' then Star # parse_pattern r
      else if c = CHR ''?'' then AnyChar # parse_pattern r
      else if c = CHR ''['' then
        (case class_end r of
           None \<Rightarrow> Lit CHR ''['' # parse_pattern r
         | Some (stuff, rest) \<Rightarrow>
             (if hd stuff = CHR ''!'' then CharClass True (parse_set (tl stuff))
              else CharClass False (parse_set stuff)) # parse_pattern rest)
      else Lit c # parse_pattern r)"
  by pat_completeness auto
termination
proof -
  have skip: "length (skip_char x r) \<le> length r" for x r
    by (cases r) (simp_all add: skip_char_def)
  have shorter: "length rest < Suc (length r)" if h: "class_end r = Some (stuff, rest)"
    for r stuff rest
  proof -
    let ?after = "dropWhile (\<lambda>c. c \<noteq> CHR '']'') (skip_char CHR '']'' (skip_char CHR ''!'' r))"
    from h obtain x where a: "?after = x # rest"
      by (cases ?after) (simp_all add: class_end_def Let_def)
    have "length ?after \<le> length (skip_char CHR '']'' (skip_char CHR ''!'' r))"
      by (rule length_dropWhile_le)
    also have "\<dots> \<le> length (skip_char CHR ''!'' r)" by (rule skip)
    also have "\<dots> \<le> length r" by (rule skip)
    finally show ?thesis using a by simp
  qed
  show ?thesis
    by (relation "measure length") (auto dest: shorter)
qed

fun item_matches :: "glob_item \<Rightarrow> char \<Rightarrow> bool" where
  "item_matches Star c = True"
| "item_matches AnyChar c = True"
| "item_matches (Lit x) c = (c = x)"
| "item_matches (CharClass neg rs) c =
     (neg \<noteq> list_ex (\<lambda>(lo, hi). of_char lo \<le> (of_char c :: nat) \<and> (of_char c :: nat) \<le> of_char hi) rs)"

fun glob_match :: "glob_item list \<Rightarrow> string \<Rightarrow> bool" where
  "glob_match [] s = (s = [])"
| "glob_match (Star # ps) [] = glob_match ps []"
| "glob_match (Star # ps) (c # cs) = (glob_match ps (c # cs) \<or> glob_match (Star # ps) cs)"
| "glob_match (p # ps) [] = False"
| "glob_match (p # ps) (c # cs) = (item_matches p c \<and> glob_match ps cs)"

definition fnmatch :: "string \<Rightarrow> string \<Rightarrow> bool" where
  "fnmatch name pat = glob_match (parse_pattern pat) name"

subsection \<open>The filter\<close>

definition default_exclude_patterns :: "string list" where
  "default_exclude_patterns =
     [''.DS_Store'', ''.svn/*'', ''.git'', ''.git/*'', ''ppy_modules/*'',
      ''*.pyc'', ''*.pyo'', ''dist/*'']"

definition match_any_pattern :: "string \<Rightarrow> string list \<Rightarrow> bool" where
  "match_any_pattern filename patterns = list_ex (\<lambda>x. fnmatch filename x) patterns"

definition check_include_file :: "string \<Rightarrow> string list \<Rightarrow> string list \<Rightarrow> bool" where
  "check_include_file filename include_patterns exclude_patterns =
     (if match_any_pattern filename exclude_patterns then False
      else if include_patterns = [] then True
      else match_any_pattern filename include_patterns)"

section \<open>The host: paths, the file system, exceptions\<close>

subsection \<open>Path names (\<open>os.path\<close> on a POSIX host)\<close>

text \<open>
  Paths are the strings the code builds. \<open>os.path\<close> is Python's standard library; the
  functions below follow \<open>posixpath\<close>. A path is resolved lexically against the working
  directory (\<open>abs_components\<close>, the components of \<open>os.path.abspath\<close>): the model has no
  symbolic links, and the two leading slashes that \<open>normpath\<close> keeps are one here.
\<close>

fun split_on :: "char \<Rightarrow> string \<Rightarrow> string list" where
  \<comment> \<open>\<open>str.split(sep)\<close> for a separator of one character\<close>
  "split_on s [] = [[]]"
| "split_on s (c # cs) =
     (if c = s then [] # split_on s cs
      else (case split_on s cs of h # t \<Rightarrow> (c # h) # t | [] \<Rightarrow> [[c]]))"

definition split_path :: "string \<Rightarrow> string list" where
  "split_path p = split_on CHR ''/'' p"

definition norm_components :: "string list \<Rightarrow> string list" where
  "norm_components cs =
     foldl (\<lambda>acc c. if c = [] \<or> c = ''.'' then acc
                     else if c = ''..'' then butlast acc else acc @ [c]) [] cs"

definition abs_components :: "string \<Rightarrow> string \<Rightarrow> string list" where
  "abs_components cwd p =
     norm_components ((if take 1 p = ''/'' then [] else split_path cwd) @ split_path p)"

fun join_components :: "string list \<Rightarrow> string" where
  "join_components [] = []"
| "join_components [c] = c"
| "join_components (c # cs) = c @ ''/'' @ join_components cs"

definition abspath :: "string \<Rightarrow> string \<Rightarrow> string" where
  "abspath cwd p = CHR ''/'' # join_components (abs_components cwd p)"

definition path_join :: "string \<Rightarrow> string \<Rightarrow> string" where
  "path_join a b =
     (if take 1 b = ''/'' then b
      else if a = [] \<or> last a = CHR ''/'' then a @ b
      else a @ ''/'' @ b)"

definition dirname :: "string \<Rightarrow> string" where
  "dirname p =
     (let head = rev (dropWhile (\<lambda>c. c \<noteq> CHR ''/'') (rev p))
      in if head \<noteq> [] \<and> list_ex (\<lambda>c. c \<noteq> CHR ''/'') head
         then rev (dropWhile (\<lambda>c. c = CHR ''/'') (rev head)) else head)"

definition basename :: "string \<Rightarrow> string" where
  "basename p = rev (takeWhile (\<lambda>c. c \<noteq> CHR ''/'') (rev p))"

fun common_prefix_length :: "string list \<Rightarrow> string list \<Rightarrow> nat" where
  "common_prefix_length (x # xs) (y # ys) = (if x = y then Suc (common_prefix_length xs ys) else 0)"
| "common_prefix_length xs ys = 0"

definition relpath :: "string \<Rightarrow> string \<Rightarrow> string \<Rightarrow> string" where
  \<comment> \<open>\<open>os.path.relpath(path, start)\<close>; it raises ValueError on an empty \<open>path\<close>, which the
      one caller (line 83) never passes: \<open>path\<close> ends with the name of a directory entry.\<close>
  "relpath cwd path start =
     (let start_list = abs_components cwd start;
          path_list = abs_components cwd path;
          i = common_prefix_length start_list path_list;
          rel_list = replicate (length start_list - i) ''..'' @ drop i path_list
      in if rel_list = [] then ''.'' else join_components rel_list)"

subsection \<open>Exceptions\<close>

datatype exn =
    NameError string
  | PackageNotFound string
  | InvalidPackageManifest string
  | ResolveError string
  | AssertionError
  | RecursionError
  | FileNotFoundError
  | FileExistsError
  | NotADirectoryError
  | IsADirectoryError
  | SameFileError
  | OSError string
  | OtherError string

fun is_OSError :: "exn \<Rightarrow> bool" where
  "is_OSError FileNotFoundError = True"
| "is_OSError FileExistsError = True"
| "is_OSError NotADirectoryError = True"
| "is_OSError IsADirectoryError = True"
| "is_OSError SameFileError = True"
| "is_OSError (OSError m) = True"
| "is_OSError e = False"

subsection \<open>The directory tree\<close>

text \<open>
  A directory lists its entries in the order the host enumerates them. Permissions, links
  and devices are not modelled: an operation fails only for the shape of the tree.
\<close>

datatype fsnode = File string | Dir "(string \<times> fsnode) list"

fun lookup_node :: "fsnode \<Rightarrow> string list \<Rightarrow> fsnode option" where
  "lookup_node n [] = Some n"
| "lookup_node (File x) (c # cs) = None"
| "lookup_node (Dir es) (c # cs) =
     (case map_of es c of None \<Rightarrow> None | Some n \<Rightarrow> lookup_node n cs)"

fun put_node :: "fsnode \<Rightarrow> string list \<Rightarrow> fsnode \<Rightarrow> fsnode" where
  \<comment> \<open>store a node at a path, creating the directories that are missing on the way; the
      callers have checked that no file lies on the way\<close>
  "put_node t [] new = new"
| "put_node (File x) (c # cs) new = File x"
| "put_node (Dir es) (c # cs) new =
     Dir (case map_of es c of
            None \<Rightarrow> es @ [(c, put_node (Dir []) cs new)]
          | Some sub \<Rightarrow> AList.update c (put_node sub cs new) es)"

fun del_node :: "fsnode \<Rightarrow> string list \<Rightarrow> fsnode" where
  "del_node t [] = t"
| "del_node (File x) (c # cs) = File x"
| "del_node (Dir es) [c] = Dir (AList.delete c es)"
| "del_node (Dir es) (c # cs) =
     Dir (case map_of es c of
            None \<Rightarrow> es
          | Some sub \<Rightarrow> AList.update c (del_node sub cs) es)"

definition node_at :: "string \<Rightarrow> fsnode \<Rightarrow> string \<Rightarrow> fsnode option" where
  \<comment> \<open>the empty path names nothing (ENOENT)\<close>
  "node_at cwd root p = (if p = [] then None else lookup_node root (abs_components cwd p))"

definition isdir :: "string \<Rightarrow> fsnode \<Rightarrow> string \<Rightarrow> bool" where
  "isdir cwd root p = (case node_at cwd root p of Some (Dir es) \<Rightarrow> True | _ \<Rightarrow> False)"

definition isfile :: "string \<Rightarrow> fsnode \<Rightarrow> string \<Rightarrow> bool" where
  "isfile cwd root p = (case node_at cwd root p of Some (File x) \<Rightarrow> True | _ \<Rightarrow> False)"

definition path_exists :: "string \<Rightarrow> fsnode \<Rightarrow> string \<Rightarrow> bool" where
  "path_exists cwd root p = (node_at cwd root p \<noteq> None)"

definition file_on_the_way :: "fsnode \<Rightarrow> string list \<Rightarrow> bool" where
  "file_on_the_way root cs =
     list_ex (\<lambda>k. case lookup_node root (take k cs) of Some (File x) \<Rightarrow> True | _ \<Rightarrow> False)
       [0..<length cs]"

definition os_makedirs :: "string \<Rightarrow> string \<Rightarrow> fsnode \<Rightarrow> exn + fsnode" where
  "os_makedirs cwd p root =
     (if p = [] then Inl FileNotFoundError
      else let cs = abs_components cwd p
           in if file_on_the_way root cs then Inl NotADirectoryError
              else if lookup_node root cs \<noteq> None then Inl FileExistsError
              else Inr (put_node root cs (Dir [])))"

definition read_file :: "string \<Rightarrow> string \<Rightarrow> fsnode \<Rightarrow> exn + string" where
  "read_file cwd p root =
     (case node_at cwd root p of
        None \<Rightarrow> Inl FileNotFoundError
      | Some (Dir es) \<Rightarrow> Inl IsADirectoryError
      | Some (File x) \<Rightarrow> Inr x)"

definition write_file :: "string \<Rightarrow> string \<Rightarrow> string \<Rightarrow> fsnode \<Rightarrow> exn + fsnode" where
  \<comment> \<open>\<open>open(p, 'w')\<close>, the writes, and the close\<close>
  "write_file cwd p content root =
     (if p = [] then Inl FileNotFoundError
      else let cs = abs_components cwd p
           in if cs = [] then Inl IsADirectoryError
              else (case lookup_node root (butlast cs) of
                      None \<Rightarrow> Inl FileNotFoundError
                    | Some (File x) \<Rightarrow> Inl NotADirectoryError
                    | Some (Dir es) \<Rightarrow>
                        (case map_of es (last cs) of
                           Some (Dir es') \<Rightarrow> Inl IsADirectoryError
                         | _ \<Rightarrow> Inr (put_node root cs (File content)))))"

definition copyfile :: "string \<Rightarrow> string \<Rightarrow> string \<Rightarrow> fsnode \<Rightarrow> exn + fsnode" where
  \<comment> \<open>\<open>shutil.copyfile(src, dst)\<close>\<close>
  "copyfile cwd src dst root =
     (if path_exists cwd root src \<and> dst \<noteq> [] \<and> abs_components cwd src = abs_components cwd dst
      then Inl SameFileError
      else (case read_file cwd src root of
              Inl e \<Rightarrow> Inl e
            | Inr content \<Rightarrow> write_file cwd dst content root))"

definition os_remove :: "string \<Rightarrow> string \<Rightarrow> fsnode \<Rightarrow> exn + fsnode" where
  "os_remove cwd p root =
     (case node_at cwd root p of
        None \<Rightarrow> Inl FileNotFoundError
      | Some (Dir es) \<Rightarrow> Inl IsADirectoryError
      | Some (File x) \<Rightarrow> Inr (del_node root (abs_components cwd p)))"

definition rmtree :: "string \<Rightarrow> string \<Rightarrow> fsnode \<Rightarrow> exn + fsnode" where
  \<comment> \<open>\<open>shutil.rmtree(path)\<close>; the root of the tree cannot be removed\<close>
  "rmtree cwd p root =
     (case node_at cwd root p of
        None \<Rightarrow> Inl FileNotFoundError
      | Some (File x) \<Rightarrow> Inl NotADirectoryError
      | Some (Dir es) \<Rightarrow>
          (if abs_components cwd p = [] then Inl (OSError ''cannot remove the root'')
           else Inr (del_node root (abs_components cwd p))))"

fun walk_tree :: "string \<Rightarrow> fsnode \<Rightarrow> (string \<times> string list \<times> string list) list" where
  "walk_tree tp (File x) = []"
| "walk_tree tp (Dir es) =
     (tp, [n. (n, Dir d) \<leftarrow> es], [n. (n, File x) \<leftarrow> es]) #
     concat (map (\<lambda>(n, t). walk_tree (path_join tp n) t) es)"

definition os_walk :: "string \<Rightarrow> fsnode \<Rightarrow> string \<Rightarrow> (string \<times> string list \<times> string list) list" where
  \<comment> \<open>\<open>os.walk(top)\<close>, top-down, as the list of the triples it yields on a tree that does not
      change during the walk; a \<open>top\<close> that is no directory yields nothing\<close>
  "os_walk cwd root tp =
     (case node_at cwd root tp of Some (Dir es) \<Rightarrow> walk_tree tp (Dir es) | _ \<Rightarrow> [])"

definition scandir :: "string \<Rightarrow> fsnode \<Rightarrow> string \<Rightarrow> (string list \<times> string list) option" where
  \<comment> \<open>what \<open>os.walk\<close> reads of one directory at the moment it reaches it: the names of
      its subdirectories and of its other entries; \<open>None\<close> when the path is no directory
      (\<open>os.walk\<close> swallows the error and yields nothing for it)\<close>
  "scandir wd root p =
     (case node_at wd root p of
        Some (Dir es) \<Rightarrow> Some ([n. (n, Dir d) \<leftarrow> es], [n. (n, File x) \<leftarrow> es])
      | _ \<Rightarrow> None)"

section \<open>The installer (install.py)\<close>

subsection \<open>Data\<close>

text \<open>
  The manifest model, the version selectors, the registry client, the module-resolution
  session, the script generators and the runtime's script invoker are modules that
  install.py obtains through \<open>require\<close>; their sources are not part of what is modelled.
  A selector and a version are kept as their text, and what the code calls on those
  modules is a field of the environment \<open>env\<close>, a parameter of every definition below.
\<close>

type_synonym selector = string

record manifest =
  name :: string
  version :: string
  ident :: string
  directory :: string
  dependencies :: "(string \<times> selector) list"
  python_dependencies :: "(string \<times> string) list"
  dist :: "(string \<times> string list) list"
  script :: "(string \<times> string) list"
  bin :: "(string \<times> string) list"
  postinstall :: "string option"

record package_info =
  info_name :: string
  info_version :: string

type_synonym response = string

record registry =
  reg_find_package :: "string \<Rightarrow> selector \<Rightarrow> exn + package_info"
  reg_download :: "string \<Rightarrow> string \<Rightarrow> exn + response"

datatype request = FindPackage string selector | Download string string

record world =
  fs :: fsnode
  out :: "string list"
  err :: "string list"
  net :: "request list"
  calls :: "(string \<times> selector \<times> (exn + bool)) list"

text \<open>
  \<open>out\<close> and \<open>err\<close> are the lines written to the two standard streams, \<open>net\<close> the requests
  sent to the registry. \<open>calls\<close> is a ghost field: no definition of the installer reads or
  writes it; an observer wrapped around a method records the method's invocations there.
\<close>

type_synonym 'a action = "world \<Rightarrow> (exn + 'a) \<times> world"

record ref =
  ref_package :: string
  ref_version :: "selector option"

record env =
  cwd :: string
  config :: "string \<Rightarrow> string"
  RegistryClient :: "string \<Rightarrow> registry"
  session_resolve :: "string \<Rightarrow> fsnode \<Rightarrow> exn + string"
  session_get_manifest :: "string \<Rightarrow> fsnode \<Rightarrow> exn + manifest"
  matches :: "selector \<Rightarrow> string \<Rightarrow> bool"
  refstring_parse :: "string \<Rightarrow> exn + ref"
  str_exn :: "exn \<Rightarrow> string"
  format_exc :: "exn \<Rightarrow> string"
  shlex_split :: "string \<Rightarrow> exn + string list"
  pip_install :: "string list \<Rightarrow> int action"
  make_command_script :: "string \<Rightarrow> string \<Rightarrow> string list \<Rightarrow> (string list) action"
  make_ppy_runner :: "string \<Rightarrow> string \<Rightarrow> string \<Rightarrow> string option \<Rightarrow> (string list) action"
  main_run :: "string \<Rightarrow> unit action"
  mkdtemp :: "string \<Rightarrow> string action"
  tar_extractall :: "string \<Rightarrow> string \<Rightarrow> unit action"
  get_response_filename :: "response \<Rightarrow> exn + string"
  named_temporary_file :: "string \<Rightarrow> string action"
  download_to_fileobj :: "response \<Rightarrow> string \<Rightarrow> unit action"
  recursion_limit :: nat

text \<open>
  \<open>recursion_limit\<close> is the number of nested \<open>os.walk\<close> generators the interpreter
  allows (see \<open>for_walk\<close> below).
  \<open>cwd\<close> is \<open>os.getcwd()\<close> (the code never changes it); \<open>config\<close> is the configuration store,
  read at the keys \<open>registry\<close> and \<open>prefix\<close>, which its defaults supply;
  \<open>session_resolve\<close> is \<open>require.session.resolve(package).directory\<close> and
  \<open>session_get_manifest\<close> is \<open>require.session.get_manifest\<close>; \<open>matches s v\<close> is the call
  \<open>s(v)\<close> of a selector on a version; \<open>str_exn\<close> is \<open>str\<close> of an exception and \<open>format_exc\<close>
  the text \<open>traceback.print_exc()\<close> writes; \<open>main_run\<close> is \<open>upython.main.run\<close>;
  \<open>pip_install\<close> is \<open>pip.commands.install.InstallCommand().main\<close>; \<open>tar_extractall a d\<close>
  is \<open>tarfile.open(a).extractall(d)\<close>; \<open>named_temporary_file\<close> creates the file and
  returns its name. Each may raise, and an action may change the world in any way.
\<close>

record installer =
  reg :: registry
  upgrade :: bool
  global_flag :: bool
  strict :: bool
  dirs_packages :: string
  dirs_bin :: string
  dirs_python_modules :: string
  dirs_reference_dir :: "string option"

definition PPYM_INSTALLED_FILES :: string where
  "PPYM_INSTALLED_FILES = ''.ppym-installed-files''"

subsection \<open>Names bound in the module\<close>

text \<open>
  What the top-level statements of install.py bind (lines 21--43 and the \<open>def\<close> and
  \<open>class\<close> statements), each with the text it is bound to; \<open>require\<close> and \<open>upython\<close> are
  taken to be supplied by the hosting runtime, which runs line 33 with \<open>require\<close> already
  bound. Reading any other global name that is no builtin raises NameError.
\<close>

definition module_globals :: "(string \<times> string) list" where
  "module_globals =
     [(''require'', ''<runtime>''), (''upython'', ''<runtime>''),
      (''__all__'', ''[InstallError, Installer, walk_package_files]''),
      (''os'', ''import os''), (''pip'', ''import pip.commands''), (''shlex'', ''import shlex''),
      (''shutil'', ''import shutil''), (''tarfile'', ''import tarfile''),
      (''tempfile'', ''import tempfile''), (''traceback'', ''import traceback''),
      (''fnmatch'', ''from fnmatch import fnmatch''),
      (''_registry'', ''require(./registry)''), (''_config'', ''require(./config)''),
      (''_download'', ''require(./utils/download)''), (''_script'', ''require(./utils/script)''),
      (''refstring'', ''require(@ppym/refstring)''),
      (''parse_manifest'', ''require(@ppym/manifest).parse''),
      (''PackageManifest'', ''require(@ppym/manifest).PackageManifest''),
      (''InvalidPackageManifest'', ''require(@ppym/manifest).InvalidPackageManifest''),
      (''PPYM_INSTALLED_FILES'', ''.ppym-installed-files''),
      (''default_exclude_patterns'', ''<list>''),
      (''_makedirs'', ''<function>''), (''_match_any_pattern'', ''<function>''),
      (''_check_include_file'', ''<function>''), (''PackageNotFound'', ''<class>''),
      (''walk_package_files'', ''<function>''), (''Installer'', ''<class>''),
      (''InstallError'', ''<class>'')]"

definition load_global :: "string \<Rightarrow> exn + string" where
  "load_global n = (case map_of module_globals n of None \<Rightarrow> Inl (NameError n) | Some v \<Rightarrow> Inr v)"

subsection \<open>Output and small helpers\<close>

definition print :: "string \<Rightarrow> world \<Rightarrow> world" where
  "print s w = w\<lparr>out := out w @ [s]\<rparr>"

definition print_exc :: "env \<Rightarrow> exn \<Rightarrow> world \<Rightarrow> world" where
  "print_exc env e w = w\<lparr>err := err w @ [format_exc env e]\<rparr>"

fun join_with :: "string \<Rightarrow> string list \<Rightarrow> string" where
  "join_with s [] = []"
| "join_with s [x] = x"
| "join_with s (x # xs) = x @ s @ join_with s xs"

definition file_lines :: "string \<Rightarrow> string list" where
  \<comment> \<open>\<open>[line.rstrip('\n') for line in fp]\<close>; carriage returns are not translated\<close>
  "file_lines s = (let ls = split_on (CHR 0x0A) s in if last ls = [] then butlast ls else ls)"

definition makedirs :: "env \<Rightarrow> string \<Rightarrow> fsnode \<Rightarrow> exn + fsnode" where
  \<comment> \<open>\<open>_makedirs\<close>, lines 51--53\<close>
  "makedirs env path root =
     (if \<not> isdir (cwd env) root path then os_makedirs (cwd env) path root else Inr root)"

definition refstring_join :: "string \<Rightarrow> selector option \<Rightarrow> string" where
  \<comment> \<open>Modelled from the spec: \<open>refstring.join\<close> is not among the sources; it "renders name
      alone, or name@selector when a selector is given".\<close>
  "refstring_join n v = (case v of None \<Rightarrow> n | Some s \<Rightarrow> n @ ''@'' @ s)"

subsection \<open>Construction and lookup (lines 93--136)\<close>

definition Installer :: "env \<Rightarrow> registry option \<Rightarrow> bool \<Rightarrow> bool \<Rightarrow> bool \<Rightarrow> installer" where
  "Installer env registry upgrade_arg global_arg strict_arg =
     \<lparr> reg = (case registry of Some r \<Rightarrow> r | None \<Rightarrow> RegistryClient env (config env ''registry'')),
       upgrade = upgrade_arg,
       global_flag = global_arg,
       strict = strict_arg,
       dirs_packages =
         (if global_arg then path_join (config env ''prefix'') ''ppy_modules'' else ''ppy_modules''),
       dirs_bin =
         (if global_arg then path_join (config env ''prefix'') ''bin'' else ''ppy_modules/.bin''),
       dirs_python_modules =
         (if global_arg then path_join (config env ''prefix'') ''pymodules''
          else ''ppy_modules/.pymodules''),
       dirs_reference_dir = (if global_arg then None else Some (cwd env)) \<rparr>"

definition find_package :: "env \<Rightarrow> installer \<Rightarrow> string \<Rightarrow> fsnode \<Rightarrow> exn + manifest" where
  "find_package env self package root =
     (case (if strict self
            then Inr (Some (path_join (path_join (dirs_packages self) package) ''package.json''))
            else (case session_resolve env package root of
                    Inr module_directory \<Rightarrow> Inr (Some (path_join module_directory ''package.json''))
                  | Inl (ResolveError m) \<Rightarrow> Inr None
                  | Inl e \<Rightarrow> Inl e)) of
        Inl e \<Rightarrow> Inl e
      | Inr None \<Rightarrow> Inl (PackageNotFound package)
      | Inr (Some filename) \<Rightarrow>
          (if filename \<noteq> [] \<and> isfile (cwd env) root filename
           then session_get_manifest env filename root
           else Inl (PackageNotFound package)))"

subsection \<open>Uninstalling (lines 138--181)\<close>

fun remove_files :: "env \<Rightarrow> string list \<Rightarrow> world \<Rightarrow> world" where
  \<comment> \<open>lines 175--179; every error of \<open>os.remove\<close> is an OSError\<close>
  "remove_files env [] w = w"
| "remove_files env (fn # fns) w =
     (case os_remove (cwd env) fn (fs w) of
        Inr root' \<Rightarrow> remove_files env fns (w\<lparr>fs := root'\<rparr>)
      | Inl e \<Rightarrow> remove_files env fns (print (''  \"'' @ fn @ ''\": '' @ str_exn env e) w))"

definition uninstall_directory :: "env \<Rightarrow> installer \<Rightarrow> string \<Rightarrow> bool action" where
  "uninstall_directory env self dir w =
     (case session_get_manifest env (path_join dir ''package.json'') (fs w) of
        Inl (InvalidPackageManifest m) \<Rightarrow>
          \<comment> \<open>line 160: the handler binds the exception to \<open>exc\<close> and formats \<open>ext\<close>\<close>
          (case load_global ''ext'' of
             Inl e \<Rightarrow> (Inl e, w)
           | Inr ext \<Rightarrow>
               (Inr False,
                print (''Can not uninstall: directory \"'' @ dir @ ''\": Invalid manifest\": '' @ ext) w))
      | Inl e \<Rightarrow> (Inl e, w)
      | Inr manifest \<Rightarrow>
          (let w1 = print (''Uninstalling \"'' @ ident manifest @ ''\" from \"'' @ dir @ ''\"''
                           @ (if upgrade self then '' before upgrade'' else '''') @ ''...'') w;
               filelist_fn = path_join dir PPYM_INSTALLED_FILES
           in case (if \<not> isfile (cwd env) (fs w1) filelist_fn
                    then Inr ([], print (''  Warning: No `'' @ PPYM_INSTALLED_FILES
                                          @ ''` found in package directory'') w1)
                    else (case read_file (cwd env) filelist_fn (fs w1) of
                            Inl e \<Rightarrow> Inl e
                          | Inr content \<Rightarrow> Inr (file_lines content, w1))) of
                Inl e \<Rightarrow> (Inl e, w1)
              | Inr (installed_files, w2) \<Rightarrow>
                  (let w3 = remove_files env installed_files w2
                   in case rmtree (cwd env) dir (fs w3) of
                        Inl e \<Rightarrow> (Inl e, w3)
                      | Inr root' \<Rightarrow> (Inr True, w3\<lparr>fs := root'\<rparr>))))"

definition uninstall :: "env \<Rightarrow> installer \<Rightarrow> string \<Rightarrow> bool action" where
  "uninstall env self package_name w =
     (case find_package env self package_name (fs w) of
        Inl (PackageNotFound p) \<Rightarrow>
          (Inr False, print (''Package \"'' @ package_name @ ''\" not installed'') w)
      | Inl e \<Rightarrow> (Inl e, w)
      | Inr manifest \<Rightarrow> uninstall_directory env self (directory manifest) w)"

subsection \<open>Packaged files (lines 72--85)\<close>

definition dist_get :: "manifest \<Rightarrow> string \<Rightarrow> string list" where
  \<comment> \<open>\<open>manifest.dist.get(key, [])\<close>\<close>
  "dist_get manifest key = (case map_of (dist manifest) key of None \<Rightarrow> [] | Some v \<Rightarrow> v)"

definition walk_package_files :: "env \<Rightarrow> manifest \<Rightarrow> fsnode \<Rightarrow> (string \<times> string) list" where
  \<comment> \<open>the pairs the generator yields, in order, on a tree that does not change meanwhile\<close>
  "walk_package_files env manifest root =
     (let inpat = dist_get manifest ''include_files'';
          expat = dist_get manifest ''include_files'' @ default_exclude_patterns
      in concat (map (\<lambda>(root_dir, dirs, files).
           concat (map (\<lambda>filename.
             (let filename' = path_join root_dir filename;
                  rel = relpath (cwd env) filename' (directory manifest)
              in if rel = ''package.json'' \<or> check_include_file rel inpat expat
                 then [(filename', rel)] else [])) files))
           (os_walk (cwd env) root (directory manifest))))"

text \<open>
  The list above is what the generator yields when nothing changes the tree while it
  runs. A \<open>for\<close> loop over the generator whose body writes files has to be modelled as
  the generator runs: \<open>os.walk\<close> (CPython 3.5 to 3.11, a recursive generator) reads a
  directory only when it reaches it, after the loop body has run for everything yielded
  before, and it descends into the subdirectories it saw at that moment. \<open>for_walk\<close> is
  the loop \<open>for src, rel in walk_package_files(manifest): body\<close> with a value \<open>a\<close> carried
  from one run of the body to the next; an exception of the body ends the loop. A
  generator nested deeper than the interpreter allows raises RecursionError.
\<close>

fun for_files ::
  "env \<Rightarrow> manifest \<Rightarrow> (string \<Rightarrow> string \<Rightarrow> 'a \<Rightarrow> 'a action) \<Rightarrow> string \<Rightarrow> string list
     \<Rightarrow> 'a \<Rightarrow> 'a action" where
  \<comment> \<open>lines 81--85 for the files of one directory, the body run at each \<open>yield\<close>\<close>
  "for_files env manifest body root_dir [] a w = (Inr a, w)"
| "for_files env manifest body root_dir (filename # files) a w =
     (let filename' = path_join root_dir filename;
          rel = relpath (cwd env) filename' (directory manifest)
      in if rel = ''package.json'' \<or>
            check_include_file rel (dist_get manifest ''include_files'')
              (dist_get manifest ''include_files'' @ default_exclude_patterns)
         then (case body filename' rel a w of
                 (Inl e, w') \<Rightarrow> (Inl e, w')
               | (Inr a', w') \<Rightarrow> for_files env manifest body root_dir files a' w')
         else for_files env manifest body root_dir files a w)"

fun for_walk ::
  "nat \<Rightarrow> env \<Rightarrow> manifest \<Rightarrow> (string \<Rightarrow> string \<Rightarrow> 'a \<Rightarrow> 'a action) \<Rightarrow> string
     \<Rightarrow> 'a \<Rightarrow> 'a action"
and for_walk_dirs ::
  "nat \<Rightarrow> env \<Rightarrow> manifest \<Rightarrow> (string \<Rightarrow> string \<Rightarrow> 'a \<Rightarrow> 'a action) \<Rightarrow> string
     \<Rightarrow> string list \<Rightarrow> 'a \<Rightarrow> 'a action" where
  "for_walk 0 env manifest body tp a w = (Inl RecursionError, w)"
| "for_walk (Suc d) env manifest body tp a w =
     (case scandir (cwd env) (fs w) tp of
        None \<Rightarrow> (Inr a, w)
      | Some (dirs, files) \<Rightarrow>
          (case for_files env manifest body tp files a w of
             (Inl e, w') \<Rightarrow> (Inl e, w')
           | (Inr a', w') \<Rightarrow> for_walk_dirs d env manifest body tp dirs a' w'))"
| "for_walk_dirs d env manifest body tp [] a w = (Inr a, w)"
| "for_walk_dirs d env manifest body tp (dn # dirs) a w =
     (case for_walk d env manifest body (path_join tp dn) a w of
        (Inl e, w') \<Rightarrow> (Inl e, w')
      | (Inr a', w') \<Rightarrow> for_walk_dirs d env manifest body tp dirs a' w')"

definition for_walk_package_files ::
  "env \<Rightarrow> manifest \<Rightarrow> (string \<Rightarrow> string \<Rightarrow> 'a \<Rightarrow> 'a action) \<Rightarrow> 'a \<Rightarrow> 'a action" where
  "for_walk_package_files env manifest body a w =
     for_walk (recursion_limit env) env manifest body (directory manifest) a w"

definition recording ::
  "(string \<Rightarrow> string \<Rightarrow> 'a \<Rightarrow> 'a action) \<Rightarrow> string \<Rightarrow> string
     \<Rightarrow> ('a \<times> (string \<times> string) list) \<Rightarrow> ('a \<times> (string \<times> string) list) action" where
  \<comment> \<open>a loop body that also keeps the pairs it was run for, in order\<close>
  "recording body src rel st w =
     (case body src rel (fst st) w of
        (Inl e, w') \<Rightarrow> (Inl e, w')
      | (Inr a', w') \<Rightarrow> (Inr (a', snd st @ [(src, rel)]), w'))"

subsection \<open>Dependencies (lines 183--253)\<close>

text \<open>
  A method that calls another method of the installer takes that method's behaviour as an
  argument (\<open>ifr\<close> for \<open>self.install_from_registry\<close>, \<open>ifa\<close> for
  \<open>self.install_from_archive\<close>, \<open>ifd\<close> for \<open>self.install_from_directory\<close>), so that each
  body is stated once and holds for whatever the callee does.
\<close>

fun scan_dependencies ::
  "env \<Rightarrow> installer \<Rightarrow> (string \<times> selector) list \<Rightarrow> (string \<times> selector) list
     \<Rightarrow> ((string \<times> selector) list) action" where
  \<comment> \<open>the loop of lines 205--216 over \<open>deps.items()\<close>, with \<open>install_deps\<close> so far\<close>
  "scan_dependencies env self [] install_deps w = (Inr install_deps, w)"
| "scan_dependencies env self ((nm, ver) # deps) install_deps w =
     (case find_package env self nm (fs w) of
        Inl (PackageNotFound p) \<Rightarrow> scan_dependencies env self deps (install_deps @ [(nm, ver)]) w
      | Inl e \<Rightarrow> (Inl e, w)
      | Inr dep \<Rightarrow>
          scan_dependencies env self deps install_deps
            (if \<not> matches env ver (version dep)
             then print (''  Warning: Dependency \"'' @ nm @ ''@'' @ ver
                         @ ''\" unsatisfied, have \"'' @ ident dep @ ''\" installed'') w
             else print (''  Skipping satisfied dependency \"'' @ nm @ ''@'' @ ver
                         @ ''\", have \"'' @ ident dep @ '' installed'') w))"

fun install_queue ::
  "(string \<Rightarrow> selector \<Rightarrow> bool action) \<Rightarrow> (string \<times> selector) list \<Rightarrow> bool action" where
  \<comment> \<open>the loop of lines 223--227\<close>
  "install_queue ifr [] w = (Inr True, w)"
| "install_queue ifr ((nm, ver) # rest) w =
     (case ifr nm ver w of
        (Inl e, w') \<Rightarrow> (Inl e, w')
      | (Inr ok, w') \<Rightarrow> if \<not> ok then (Inr False, w') else install_queue ifr rest w')"

definition install_dependencies ::
  "env \<Rightarrow> (string \<Rightarrow> selector \<Rightarrow> bool action) \<Rightarrow> installer \<Rightarrow> (string \<times> selector) list
     \<Rightarrow> bool action" where
  "install_dependencies env ifr self deps w =
     (case scan_dependencies env self deps [] w of
        (Inl e, w1) \<Rightarrow> (Inl e, w1)
      | (Inr install_deps, w1) \<Rightarrow>
          (if install_deps = [] then (Inr True, w1)
           else (let depfmt = join_with '', '' (map (\<lambda>(n, v). refstring_join n (Some v)) install_deps)
                 in install_queue ifr install_deps
                      (print (''  Installing dependencies: '' @ depfmt) w1))))"

fun str_nat :: "nat \<Rightarrow> string" where
  "str_nat n =
     (if n < 10 then [char_of (48 + n)] else str_nat (n div 10) @ [char_of (48 + n mod 10)])"

declare str_nat.simps [simp del]

definition str_int :: "int \<Rightarrow> string" where
  "str_int i = (if i < 0 then CHR ''-'' # str_nat (nat (- i)) else str_nat (nat i))"

definition install_python_dependencies ::
  "env \<Rightarrow> installer \<Rightarrow> (string \<times> string) list \<Rightarrow> bool action" where
  "install_python_dependencies env self deps w =
     (let install_modules = map (\<lambda>(nm, ver). nm @ ver) deps
      in if install_modules \<noteq> [] then
           (let w1 = print (''  Installing Python dependencies via Pip: ''
                            @ join_with '' '' install_modules) w;
                cmd = [''--target'', dirs_python_modules self] @ install_modules
            in case pip_install env cmd w1 of
                 (Inl e, w2) \<Rightarrow> (Inl e, w2)
               | (Inr res, w2) \<Rightarrow>
                   (if res \<noteq> 0
                    then (Inr False,
                          print (''Error: `pip install` failed with exit-code '' @ str_int res) w2)
                    else (Inr True, w2)))
         else (Inr True, w))"

definition install_dependencies_for ::
  "env \<Rightarrow> (string \<Rightarrow> selector \<Rightarrow> bool action) \<Rightarrow> installer \<Rightarrow> manifest \<Rightarrow> bool action" where
  "install_dependencies_for env ifr self manifest w =
     (case (if dependencies manifest \<noteq> [] then
              install_dependencies env ifr self (dependencies manifest)
                (print (''Installing dependencies for \"'' @ ident manifest @ ''\"...'') w)
            else (Inr True, w)) of
        (Inl e, w1) \<Rightarrow> (Inl e, w1)
      | (Inr ok, w1) \<Rightarrow>
          (if \<not> ok then (Inr False, w1)
           else if python_dependencies manifest \<noteq> [] then
             (case install_python_dependencies env self (python_dependencies manifest)
                     (print (''Installing Python dependencies for \"'' @ ident manifest
                             @ ''\"...'') w1) of
                (Inl e, w2) \<Rightarrow> (Inl e, w2)
              | (Inr ok2, w2) \<Rightarrow> if \<not> ok2 then (Inr False, w2) else (Inr True, w2))
           else (Inr True, w1)))"

subsection \<open>Installing from a directory (lines 255--333)\<close>

definition copy_package_file ::
  "env \<Rightarrow> string \<Rightarrow> string \<Rightarrow> string \<Rightarrow> string list \<Rightarrow> (string list) action" where
  \<comment> \<open>the body of the loop of line 299 (lines 300--304)\<close>
  "copy_package_file env target_dir src rel installed_files w =
     (let dst = path_join target_dir rel
      in case makedirs env (dirname dst) (fs w) of
           Inl e \<Rightarrow> (Inl e, w)
         | Inr root1 \<Rightarrow>
             (let w1 = print (''  Copying '' @ rel @ '' ...'') (w\<lparr>fs := root1\<rparr>)
              in case copyfile (cwd env) src dst (fs w1) of
                   Inl e \<Rightarrow> (Inl e, w1)
                 | Inr root2 \<Rightarrow> (Inr (installed_files @ [dst]), w1\<lparr>fs := root2\<rparr>)))"

fun make_command_scripts ::
  "env \<Rightarrow> installer \<Rightarrow> (string \<times> string) list \<Rightarrow> string list \<Rightarrow> (string list) action" where
  \<comment> \<open>the loop of lines 307--310 over \<open>manifest.script.items()\<close>\<close>
  "make_command_scripts env self [] installed_files w = (Inr installed_files, w)"
| "make_command_scripts env self ((script_name, command) # rest) installed_files w =
     (let w1 = print (''  Installing script \"'' @ script_name @ ''\"...'') w
      in case shlex_split env command of
           Inl e \<Rightarrow> (Inl e, w1)
         | Inr argv \<Rightarrow>
             (case make_command_script env script_name (dirs_bin self) argv w1 of
                (Inl e, w2) \<Rightarrow> (Inl e, w2)
              | (Inr created, w2) \<Rightarrow>
                  make_command_scripts env self rest (installed_files @ created) w2))"

fun make_ppy_runners ::
  "env \<Rightarrow> installer \<Rightarrow> string \<Rightarrow> (string \<times> string) list \<Rightarrow> string list
     \<Rightarrow> (string list) action" where
  \<comment> \<open>the loop of lines 311--315 over \<open>manifest.bin.items()\<close>\<close>
  "make_ppy_runners env self target_dir [] installed_files w = (Inr installed_files, w)"
| "make_ppy_runners env self target_dir ((script_name, filename) # rest) installed_files w =
     (let w1 = print (''  Installing script \"'' @ script_name @ ''\"...'') w;
          filename' = abspath (cwd env) (path_join target_dir filename)
      in case make_ppy_runner env script_name (dirs_bin self) filename' (dirs_reference_dir self) w1 of
           (Inl e, w2) \<Rightarrow> (Inl e, w2)
         | (Inr created, w2) \<Rightarrow>
             make_ppy_runners env self target_dir rest (installed_files @ created) w2)"

definition ledger_text :: "string list \<Rightarrow> string" where
  \<comment> \<open>what lines 319--321 write: each name, then a newline\<close>
  "ledger_text installed_files = concat (map (\<lambda>fn. fn @ [CHR 0x0A]) installed_files)"

definition install_files :: "env \<Rightarrow> installer \<Rightarrow> manifest \<Rightarrow> string \<Rightarrow> (string list) action" where
  \<comment> \<open>lines 295--321: copy the package files, generate the scripts, write the ledger\<close>
  "install_files env self manifest target_dir w =
     (let w1 = print (''Installing \"'' @ ident manifest @ ''\" to \"'' @ target_dir @ ''\" ...'') w
      in case makedirs env target_dir (fs w1) of
           Inl e \<Rightarrow> (Inl e, w1)
         | Inr root1 \<Rightarrow>
             (case for_walk_package_files env manifest (copy_package_file env target_dir) []
                     (w1\<lparr>fs := root1\<rparr>) of
                (Inl e, w2) \<Rightarrow> (Inl e, w2)
              | (Inr copied, w2) \<Rightarrow>
                  (case make_command_scripts env self (script manifest) copied w2 of
                     (Inl e, w3) \<Rightarrow> (Inl e, w3)
                   | (Inr with_scripts, w3) \<Rightarrow>
                       (case make_ppy_runners env self target_dir (bin manifest) with_scripts w3 of
                          (Inl e, w4) \<Rightarrow> (Inl e, w4)
                        | (Inr installed_files, w4) \<Rightarrow>
                            (case write_file (cwd env) (path_join target_dir PPYM_INSTALLED_FILES)
                                    (ledger_text installed_files) (fs w4) of
                               Inl e \<Rightarrow> (Inl e, w4)
                             | Inr root5 \<Rightarrow> (Inr installed_files, w4\<lparr>fs := root5\<rparr>))))))"

definition run_postinstall :: "env \<Rightarrow> manifest \<Rightarrow> string \<Rightarrow> bool action" where
  \<comment> \<open>lines 323--333; \<open>except BaseException\<close> catches whatever the script raises\<close>
  "run_postinstall env manifest target_dir w =
     (case postinstall manifest of
        None \<Rightarrow> (Inr True, w)
      | Some p \<Rightarrow>
          (if p = [] then (Inr True, w)
           else (let w1 = print (''  Running postinstall script \"'' @ p @ ''\"...'') w;
                     filename = path_join target_dir p
                 in case main_run env filename w1 of
                      (Inl e, w2) \<Rightarrow>
                        (Inr False,
                         print_exc env e
                           (print (''  Error in postinstall script \"'' @ filename @ ''\"'') w2))
                    | (Inr u, w2) \<Rightarrow> (Inr True, w2))))"

definition install_package ::
  "env \<Rightarrow> (string \<Rightarrow> selector \<Rightarrow> bool action) \<Rightarrow> installer \<Rightarrow> manifest \<Rightarrow> string
     \<Rightarrow> bool action" where
  \<comment> \<open>lines 291--333: what follows the check of the target directory\<close>
  "install_package env ifr self manifest target_dir w =
     (case install_dependencies_for env ifr self manifest w of
        (Inl e, w1) \<Rightarrow> (Inl e, w1)
      | (Inr ok, w1) \<Rightarrow>
          (if \<not> ok then (Inr False, w1)
           else (case install_files env self manifest target_dir w1 of
                   (Inl e, w2) \<Rightarrow> (Inl e, w2)
                 | (Inr installed_files, w2) \<Rightarrow> run_postinstall env manifest target_dir w2)))"

definition install_from_directory ::
  "env \<Rightarrow> (string \<Rightarrow> selector \<Rightarrow> bool action) \<Rightarrow> installer \<Rightarrow> string
     \<Rightarrow> (string \<times> string) option \<Rightarrow> bool action" where
  "install_from_directory env ifr self dir expect w =
     (case session_get_manifest env (path_join dir ''package.json'') (fs w) of
        Inl FileNotFoundError \<Rightarrow>
          (Inr False, print (''Error: directory \"'' @ dir @ ''\" contains no package manifest'') w)
      | Inl (InvalidPackageManifest m) \<Rightarrow>
          (Inr False,
           print (''Error: directory \"'' @ dir @ ''\": '' @ str_exn env (InvalidPackageManifest m)) w)
      | Inl e \<Rightarrow> (Inl e, w)
      | Inr manifest \<Rightarrow>
          (if expect \<noteq> None \<and> Some (name manifest, version manifest) \<noteq> expect
           then (Inr False,
                 print (''Error: Expected to install \"'' @ fst (the expect) @ ''@'' @ snd (the expect)
                        @ ''\" but got \"'' @ ident manifest @ ''\" in \"'' @ dir @ ''\"'') w)
           else (let w1 = print (''Installing \"'' @ ident manifest @ ''\"...'') w;
                     target_dir = path_join (dirs_packages self) (name manifest)
                 in if path_exists (cwd env) (fs w1) target_dir then
                      (if \<not> upgrade self
                       then (Inr True,
                             print (''  Note: install directory \"'' @ target_dir
                                    @ ''\" already exists, specify --upgrade'') w1)
                       else (case uninstall_directory env self target_dir w1 of
                               (Inl e, w2) \<Rightarrow> (Inl e, w2)
                             | (Inr ok, w2) \<Rightarrow>
                                 (if \<not> ok then (Inr False, w2)
                                  else install_package env ifr self manifest target_dir w2)))
                    else install_package env ifr self manifest target_dir w1)))"

subsection \<open>Installing from an archive and from the registry (lines 335--384)\<close>

definition install_from_archive ::
  "env \<Rightarrow> (string \<Rightarrow> (string \<times> string) option \<Rightarrow> bool action) \<Rightarrow> installer \<Rightarrow> string
     \<Rightarrow> (string \<times> string) option \<Rightarrow> bool action" where
  "install_from_archive env ifd self archive expect w =
     (case mkdtemp env (''_'' @ basename archive @ ''_unpacked'') w of
        (Inl e, w1) \<Rightarrow> (Inl e, w1)
      | (Inr tmpdir, w1) \<Rightarrow>
          (let w2 = print (''Unpacking \"'' @ archive @ ''\"...'') w1;
               (r, w3) = (case tar_extractall env archive tmpdir w2 of
                            (Inl e, w') \<Rightarrow> (Inl e, w')
                          | (Inr u, w') \<Rightarrow> ifd tmpdir expect w')
           in \<comment> \<open>\<open>finally\<close>: an error of the removal replaces the outcome\<close>
              case rmtree (cwd env) tmpdir (fs w3) of
                Inl e \<Rightarrow> (Inl e, w3)
              | Inr root' \<Rightarrow> (r, w3\<lparr>fs := root'\<rparr>)))"

definition download_and_install ::
  "env \<Rightarrow> (string \<Rightarrow> (string \<times> string) option \<Rightarrow> bool action) \<Rightarrow> string \<Rightarrow> package_info
     \<Rightarrow> response \<Rightarrow> bool action" where
  \<comment> \<open>lines 374--384, once the name \<open>download\<close> has been read\<close>
  "download_and_install env ifa package_name info response w =
     (case get_response_filename env response of
        Inl e \<Rightarrow> (Inl e, w)
      | Inr filename \<Rightarrow>
          (case named_temporary_file env (''_'' @ filename) w of
             (Inl e, w1) \<Rightarrow> (Inl e, w1)
           | (Inr tmp_name, w1) \<Rightarrow>
               (let (r, w3) = (case download_to_fileobj env response tmp_name w1 of
                                 (Inl e, w2) \<Rightarrow> (Inl e, w2)
                               | (Inr u, w2) \<Rightarrow>
                                   ifa tmp_name (Some (package_name, info_version info)) w2)
                in if isfile (cwd env) (fs w3) tmp_name
                   then (case os_remove (cwd env) tmp_name (fs w3) of
                           Inl e \<Rightarrow> (Inl e, w3)
                         | Inr root' \<Rightarrow> (r, w3\<lparr>fs := root'\<rparr>))
                   else (r, w3))))"

definition registry_install ::
  "env \<Rightarrow> (string \<Rightarrow> (string \<times> string) option \<Rightarrow> bool action) \<Rightarrow> installer \<Rightarrow> string
     \<Rightarrow> selector \<Rightarrow> bool action" where
  \<comment> \<open>lines 368--384: what follows the check for an installed package\<close>
  "registry_install env ifa self package_name sel w =
     (let w1 = print (''Finding package matching \"'' @ package_name @ ''@'' @ sel @ ''\"...'') w;
          w2 = w1\<lparr>net := net w1 @ [FindPackage package_name sel]\<rparr>
      in case reg_find_package (reg self) package_name sel of
           Inl e \<Rightarrow> (Inl e, w2)
         | Inr info \<Rightarrow>
             (if info_name info \<noteq> package_name then (Inl AssertionError, w2)
              else (let w3 = print (''Downloading \"'' @ info_name info @ ''@'' @ info_version info
                                    @ ''\"...'') w2;
                        w4 = w3\<lparr>net := net w3 @ [Download (info_name info) (info_version info)]\<rparr>
                    in case reg_download (reg self) (info_name info) (info_version info) of
                         Inl e \<Rightarrow> (Inl e, w4)
                       | Inr response \<Rightarrow>
                           (case load_global ''download'' of
                              Inl e \<Rightarrow> (Inl e, w4)
                            | Inr download \<Rightarrow>
                                download_and_install env ifa package_name info response w4))))"

definition install_from_registry ::
  "env \<Rightarrow> (string \<Rightarrow> (string \<times> string) option \<Rightarrow> bool action) \<Rightarrow> installer \<Rightarrow> string
     \<Rightarrow> selector \<Rightarrow> bool action" where
  "install_from_registry env ifa self package_name sel w =
     (case find_package env self package_name (fs w) of
        Inl (PackageNotFound p) \<Rightarrow> registry_install env ifa self package_name sel w
      | Inl e \<Rightarrow> (Inl e, w)
      | Inr package \<Rightarrow>
          (let w1 = (if \<not> matches env sel (version package)
                     then print (''  Warning: Dependency \"'' @ package_name @ ''@'' @ sel
                                 @ ''\" unsatisfied, have \"'' @ ident package @ ''\" installed'') w
                     else w)
           in if \<not> upgrade self
              then (Inr True,
                    print (''package \"'' @ name package @ ''@'' @ version package
                           @ ''\" already installed, specify --upgrade'') w1)
              else registry_install env ifa self package_name sel w1))"

section \<open>The command line (main.py, lines 41--58)\<close>

definition install ::
  "env \<Rightarrow> (installer \<Rightarrow> string \<Rightarrow> (string \<times> string) option \<Rightarrow> bool action)
     \<Rightarrow> (installer \<Rightarrow> string \<Rightarrow> (string \<times> string) option \<Rightarrow> bool action)
     \<Rightarrow> (installer \<Rightarrow> string \<Rightarrow> selector \<Rightarrow> bool action)
     \<Rightarrow> string \<Rightarrow> bool \<Rightarrow> bool \<Rightarrow> int action" where
  \<comment> \<open>the value returned is the command's status; \<open>ifd\<close>, \<open>ifa\<close>, \<open>ifr\<close> are the three
      methods of the installer the command calls\<close>
  "install env ifd ifa ifr package upgrade_opt global_opt w =
     (let self = Installer env None upgrade_opt global_opt False;
          (r, w1) =
            (if isdir (cwd env) (fs w) package then ifd self package None w
             else if isfile (cwd env) (fs w) package then ifa self package None w
             else (case refstring_parse env package of
                     Inl e \<Rightarrow> (Inl e, w)
                   | Inr rf \<Rightarrow>
                       (let sel = (case ref_version rf of Some s \<Rightarrow> s | None \<Rightarrow> ''*'')
                        in ifr self (ref_package rf) sel w)))
      in case r of
           Inl e \<Rightarrow> (Inl e, w1)
         | Inr success \<Rightarrow>
             (if \<not> success then (Inr 1, print ''Installation failed'' w1) else (Inr 0, w1)))"

definition click_standalone :: "env \<Rightarrow> int action \<Rightarrow> world \<Rightarrow> int \<times> world" where
  \<comment> \<open>How click (a third-party library, not among the sources) runs a command as a
      program, in its standalone mode: it calls the command function, discards the value
      returned and leaves through \<open>Context.exit()\<close>, status 0. An exception that escapes
      the function ends the process with its traceback and status 1. The result is the
      status of the process.\<close>
  "click_standalone env command w =
     (case command w of
        (Inr returned, w') \<Rightarrow> (0, w')
      | (Inl e, w') \<Rightarrow> (1, print_exc env e w'))"

section \<open>Observing the calls of a method\<close>


definition found :: "env \<Rightarrow> installer \<Rightarrow> fsnode \<Rightarrow> string \<Rightarrow> bool" where
  "found env self root nm = (case find_package env self nm root of Inr m \<Rightarrow> True | Inl e \<Rightarrow> False)"


section \<open>A concrete host\<close>

text \<open>
  One environment and a few directory trees on which the definitions are run: a manifest
  file holds the package's name, the text \<open>broken\<close> is an invalid manifest, and the package
  \<open>hooked\<close> declares a script and a postinstall hook, which fails.
\<close>

definition demo_manifest :: "string \<Rightarrow> string \<Rightarrow> manifest" where
  "demo_manifest dir nm =
     \<lparr> name = nm, version = ''1.0.0'', ident = nm @ ''@1.0.0'', directory = dir,
       dependencies = (if nm = ''app'' then [(''lib'', ''*''), (''left'', ''2.0.0'')] else []),
       python_dependencies = [],
       dist = (if nm = ''hooked'' then [] else [(''include_files'', [''*.txt''])]),
       script = (if nm = ''hooked'' then [(''hello'', ''echo hello'')] else []),
       bin = [],
       postinstall = (if nm = ''hooked'' then Some ''post.py'' else None) \<rparr>"

definition demo_put :: "string \<Rightarrow> string \<Rightarrow> fsnode \<Rightarrow> world \<Rightarrow> world" where
  "demo_put wd p n w = w\<lparr>fs := put_node (fs w) (abs_components wd p) n\<rparr>"

definition demo_registry :: registry where
  "demo_registry =
     \<lparr> reg_find_package =
         (\<lambda>nm sel. if nm = ''ghost'' then Inl (OtherError ''not on the registry'')
                   else Inr \<lparr> info_name = nm, info_version = ''2.0.0'' \<rparr>),
       reg_download = (\<lambda>nm ver. Inr (nm @ ''-'' @ ver @ ''.tar.gz'')) \<rparr>"

definition demo_host :: "string \<Rightarrow> env" where
  \<comment> \<open>the host with its working directory at \<open>wd\<close>\<close>
  "demo_host wd =
     \<lparr> cwd = wd,
       config = (\<lambda>k. if k = ''prefix'' then ''/opt/ppy'' else ''https://registry.example''),
       RegistryClient = (\<lambda>url. demo_registry),
       session_resolve =
         (\<lambda>p root. if isdir wd root (path_join ''ppy_modules'' p)
                   then Inr (path_join ''ppy_modules'' p) else Inl (ResolveError p)),
       session_get_manifest =
         (\<lambda>fn root. case read_file wd fn root of
                     Inl e \<Rightarrow> Inl e
                   | Inr text \<Rightarrow>
                       if text = ''broken'' then Inl (InvalidPackageManifest ''broken'')
                       else Inr (demo_manifest (dirname fn) text)),
       matches = (\<lambda>sel ver. sel = ''*'' \<or> sel = ver),
       refstring_parse =
         (\<lambda>t. if takeWhile (\<lambda>c. c \<noteq> CHR ''@'') t = [] then Inl (OtherError ''InvalidFormat'')
              else Inr \<lparr> ref_package = takeWhile (\<lambda>c. c \<noteq> CHR ''@'') t,
                         ref_version = (case dropWhile (\<lambda>c. c \<noteq> CHR ''@'') t of
                                          [] \<Rightarrow> None | c # s \<Rightarrow> Some s) \<rparr>),
       str_exn = (\<lambda>e. ''error''),
       format_exc = (\<lambda>e. ''Traceback (most recent call last)''),
       shlex_split = (\<lambda>c. Inr (split_on CHR '' '' c)),
       pip_install = (\<lambda>args w. (Inr 0, w)),
       make_command_script =
         (\<lambda>nm bindir argv w. (Inr [path_join bindir nm], demo_put wd (path_join bindir nm) (File ''#!'') w)),
       make_ppy_runner =
         (\<lambda>nm bindir target refdir w.
            (Inr [path_join bindir nm], demo_put wd (path_join bindir nm) (File ''#!'') w)),
       main_run = (\<lambda>fn w. (Inl (OtherError ''postinstall''), w)),
       mkdtemp = (\<lambda>suffix w. (Inr (''/tmp/tmp'' @ suffix), demo_put wd (''/tmp/tmp'' @ suffix) (Dir []) w)),
       tar_extractall = (\<lambda>archive dir w. (Inr (), w)),
       get_response_filename = (\<lambda>r. Inr r),
       named_temporary_file =
         (\<lambda>suffix w. (Inr (''/tmp/tmp'' @ suffix), demo_put wd (''/tmp/tmp'' @ suffix) (File []) w)),
       download_to_fileobj = (\<lambda>r p w. (Inr (), w)),
       recursion_limit = 1000 \<rparr>"

definition demo_env :: env where
  "demo_env = demo_host ''/work''"

definition demo_world :: "fsnode \<Rightarrow> world" where
  "demo_world root = \<lparr> fs = root, out = [], err = [], net = [], calls = [] \<rparr>"

definition txt_package_tree :: fsnode where
  \<comment> \<open>\<open>/pkg\<close> holds package.json, a.txt, b.py and .git/config\<close>
  "txt_package_tree =
     Dir [(''pkg'', Dir [(''package.json'', File ''demo''), (''a.txt'', File ''A''),
                         (''b.py'', File ''B''), (''.git'', Dir [(''config'', File ''C'')])]),
          (''work'', Dir [])]"

definition installed_tree :: fsnode where
  \<comment> \<open>the project \<open>/work\<close> has \<open>lib\<close> installed, and a package \<open>bad\<close> whose manifest is invalid;
      \<open>/src/lib\<close> and \<open>/src/bad\<close> are source directories of \<open>lib\<close> and \<open>bad\<close>\<close>
  "installed_tree =
     Dir [(''work'', Dir [(''ppy_modules'', Dir [(''lib'', Dir [(''package.json'', File ''lib'')]),
                                               (''bad'', Dir [(''package.json'', File ''broken'')])]),
                          (''lib.tar'', File ''archive'')]),
          (''src'', Dir [(''lib'', Dir [(''package.json'', File ''lib''), (''a.txt'', File ''A'')]),
                         (''bad'', Dir [(''package.json'', File ''bad'')])])]"

definition hooked_tree :: fsnode where
  \<comment> \<open>\<open>/src/hooked\<close> is a package that ships a file named like the ledger\<close>
  "hooked_tree =
     Dir [(''work'', Dir []),
          (''src'', Dir [(''hooked'', Dir [(''package.json'', File ''hooked''),
                                          (''post.py'', File ''raise SystemExit(1)''),
                                          (''.ppym-installed-files'', File ''stale'')])])]"


definition demo_ifr :: "installer \<Rightarrow> string \<Rightarrow> selector \<Rightarrow> bool action" where
  "demo_ifr self = install_from_registry demo_env (\<lambda>archive expect w. (Inr False, w)) self"

definition demo_ifd :: "installer \<Rightarrow> string \<Rightarrow> (string \<times> string) option \<Rightarrow> bool action" where
  "demo_ifd self = install_from_directory demo_env (demo_ifr self) self"

definition demo_ifa :: "installer \<Rightarrow> string \<Rightarrow> (string \<times> string) option \<Rightarrow> bool action" where
  "demo_ifa self = install_from_archive demo_env (demo_ifd self) self"

section \<open>Properties\<close>

subsection \<open>Unbound names\<close>

lemma load_global_download: "load_global ''download'' = Inl (NameError ''download'')"
  by (simp add: load_global_def module_globals_def)

lemma load_global_ext: "load_global ''ext'' = Inl (NameError ''ext'')"
  by (simp add: load_global_def module_globals_def)

subsection \<open>File selection\<close>

text \<open>
  C1. The claim: with \<open>include_files = ["*.txt"]\<close> over a directory holding package.json,
  a.txt, b.py and .git/config, the relative paths yielded are package.json and a.txt.
  The code reads \<open>include_files\<close> for the exclude patterns too (line 78), so a.txt, which
  matches the include pattern, is excluded by that same pattern: only package.json is
  yielded.
\<close>

theorem walk_package_files_drops_included_file:
  "map snd (walk_package_files demo_env (demo_manifest ''/pkg'' ''demo'') txt_package_tree)
     = [''package.json''] \<and>
   dist_get (demo_manifest ''/pkg'' ''demo'') ''include_files'' = [''*.txt''] \<and>
   match_any_pattern ''a.txt'' (dist_get (demo_manifest ''/pkg'' ''demo'') ''include_files'')"
  by code_simp

text \<open>
  C8. A path that matches at least one exclude pattern is rejected by the file-selection
  check whatever the include patterns are; and with no include pattern declared, every
  path that matches no exclude pattern is accepted.
\<close>

theorem check_include_file_exclusion_first:
  "(match_any_pattern p exclude_patterns \<longrightarrow>
      \<not> check_include_file p include_patterns exclude_patterns) \<and>
   (\<not> match_any_pattern p exclude_patterns \<longrightarrow> check_include_file p [] exclude_patterns)"
  by (simp add: check_include_file_def)

theorem check_include_file_exclusion_first_witness:
  "match_any_pattern ''dist/x.tar.gz'' [''dist/*''] \<and>
   \<not> check_include_file ''dist/x.tar.gz'' [''*.gz''] [''dist/*''] \<and>
   \<not> match_any_pattern ''readme.md'' [] \<and>
   check_include_file ''readme.md'' [] []"
  using check_include_file_exclusion_first [of "''dist/x.tar.gz''" "[''dist/*'']" "[''*.gz'']"]
    check_include_file_exclusion_first [of "''readme.md''" "[]" "[]"]
  by (simp add: match_any_pattern_def fnmatch_def)

subsection \<open>Uninstalling\<close>

lemma os_remove_raises_OSError: "os_remove wd p root = Inl e \<Longrightarrow> is_OSError e"
  by (auto simp: os_remove_def split: option.splits fsnode.splits)

text \<open>
  C3. The claim: when the manifest of the directory is invalid, \<open>uninstall_directory\<close>
  prints a diagnostic and returns False without raising. The handler of line 159 binds
  the exception to \<open>exc\<close> and line 160 formats the unbound name \<open>ext\<close>: the call raises
  NameError, prints nothing and returns nothing.
\<close>

theorem uninstall_directory_invalid_manifest_raises:
  "session_get_manifest env (path_join dir ''package.json'') (fs w) = Inl (InvalidPackageManifest m)
   \<Longrightarrow> uninstall_directory env self dir w = (Inl (NameError ''ext''), w)"
  by (simp add: uninstall_directory_def load_global_ext)

theorem uninstall_directory_invalid_manifest_raises_witness:
  "session_get_manifest demo_env (path_join ''ppy_modules/bad'' ''package.json'')
     (fs (demo_world installed_tree)) = Inl (InvalidPackageManifest ''broken'') \<and>
   uninstall_directory demo_env (Installer demo_env None False False False) ''ppy_modules/bad''
     (demo_world installed_tree) = (Inl (NameError ''ext''), demo_world installed_tree)"
proof -
  have h: "session_get_manifest demo_env (path_join ''ppy_modules/bad'' ''package.json'')
     (fs (demo_world installed_tree)) = Inl (InvalidPackageManifest ''broken'')"
    by code_simp
  from uninstall_directory_invalid_manifest_raises [OF h] h show ?thesis by simp
qed

subsection \<open>Installing from the registry\<close>

lemma registry_install_raises:
  "\<exists>e. fst (registry_install env ifa self package_name sel w) = Inl e"
  by (simp add: registry_install_def Let_def load_global_download split: sum.splits)

lemma registry_install_queries:
  "FindPackage package_name sel \<in> set (net (snd (registry_install env ifa self package_name sel w)))"
  by (simp add: registry_install_def Let_def load_global_download print_def split: sum.splits)

lemma registry_install_NameError:
  "reg_find_package (reg self) package_name sel = Inr info \<Longrightarrow> info_name info = package_name \<Longrightarrow>
   reg_download (reg self) package_name (info_version info) = Inr response \<Longrightarrow>
   fst (registry_install env ifa self package_name sel w) = Inl (NameError ''download'')"
  by (simp add: registry_install_def Let_def load_global_download)

lemma registry_install_outcome:
  "fst (registry_install env ifa self package_name sel w) =
     (case reg_find_package (reg self) package_name sel of
        Inl e \<Rightarrow> Inl e
      | Inr info \<Rightarrow>
          if info_name info \<noteq> package_name then Inl AssertionError
          else (case reg_download (reg self) package_name (info_version info) of
                  Inl e \<Rightarrow> Inl e
                | Inr response \<Rightarrow> Inl (NameError ''download'')))"
  by (simp add: registry_install_def Let_def load_global_download split: sum.splits)

text \<open>
  C2. The claim says that every call of \<open>install_from_registry\<close> that gets past the check
  for an installed package ends in the NameError of \<open>download\<close>. That is not so for every
  call: the registry is asked first (line 369), and when it raises there or at the download
  (line 373), or answers for another name (the assertion of line 370), the call ends in
  that exception and line 374 is not reached. What holds: a call that gets past the check
  (the package is not found, or it is found and upgrade mode is on) never returns a
  boolean, it ends in an exception; the registry has been asked for the package by then;
  and when the registry answers the query with the package asked for and answers the
  download, the exception is the NameError of the name \<open>download\<close>, which the module
  binds as \<open>_download\<close> (line 35) and reads as \<open>download\<close> (line 374). This holds whatever
  \<open>self.install_from_archive\<close> does: it is not reached.
\<close>

theorem install_from_registry_never_returns:
  assumes "(\<exists>p. find_package env self package_name (fs w) = Inl (PackageNotFound p)) \<or>
           (upgrade self \<and> (\<exists>package. find_package env self package_name (fs w) = Inr package))"
  shows "(\<exists>e. fst (install_from_registry env ifa self package_name sel w) = Inl e) \<and>
         FindPackage package_name sel
           \<in> set (net (snd (install_from_registry env ifa self package_name sel w))) \<and>
         (reg_find_package (reg self) package_name sel = Inr info \<and>
          info_name info = package_name \<and>
          reg_download (reg self) package_name (info_version info) = Inr response
          \<longrightarrow> fst (install_from_registry env ifa self package_name sel w)
                = Inl (NameError ''download'')) \<and>
         fst (install_from_registry env ifa self package_name sel w) =
           (case reg_find_package (reg self) package_name sel of
              Inl e \<Rightarrow> Inl e
            | Inr info \<Rightarrow>
                if info_name info \<noteq> package_name then Inl AssertionError
                else (case reg_download (reg self) package_name (info_version info) of
                        Inl e \<Rightarrow> Inl e
                      | Inr response \<Rightarrow> Inl (NameError ''download'')))"
proof -
  from assms have run: "\<exists>w1. install_from_registry env ifa self package_name sel w
                          = registry_install env ifa self package_name sel w1"
    by (auto simp: install_from_registry_def Let_def)
  then obtain w1 where run: "install_from_registry env ifa self package_name sel w
                          = registry_install env ifa self package_name sel w1" ..
  show ?thesis
    unfolding run
    using registry_install_raises [of env ifa self package_name sel w1]
      registry_install_queries [of package_name sel env ifa self w1]
      registry_install_NameError [of self package_name sel info response env ifa w1]
      registry_install_outcome [of env ifa self package_name sel w1]
    by (intro conjI impI) (simp_all del: not_Some_eq)
qed

theorem install_from_registry_never_returns_witness:
  "find_package demo_env (Installer demo_env None False False False) ''left''
     (fs (demo_world installed_tree)) = Inl (PackageNotFound ''left'') \<and>
   reg_find_package (reg (Installer demo_env None False False False)) ''left'' ''*''
     = Inr \<lparr> info_name = ''left'', info_version = ''2.0.0'' \<rparr> \<and>
   reg_download (reg (Installer demo_env None False False False)) ''left'' ''2.0.0''
     = Inr ''left-2.0.0.tar.gz'' \<and>
   fst (install_from_registry demo_env (\<lambda>archive expect w. (Inr True, w))
          (Installer demo_env None False False False) ''left'' ''*'' (demo_world installed_tree))
     = Inl (NameError ''download'')"
proof -
  let ?S = "Installer demo_env None False False False"
  have h1: "find_package demo_env ?S ''left'' (fs (demo_world installed_tree))
              = Inl (PackageNotFound ''left'')"
    by code_simp
  have h2: "reg_find_package (reg ?S) ''left'' ''*''
              = Inr \<lparr> info_name = ''left'', info_version = ''2.0.0'' \<rparr>"
    by (simp add: Installer_def demo_env_def demo_host_def demo_registry_def)
  have h3: "reg_download (reg ?S) ''left'' ''2.0.0'' = Inr ''left-2.0.0.tar.gz''"
    by (simp add: Installer_def demo_env_def demo_host_def demo_registry_def)
  from h1 have past: "(\<exists>p. find_package demo_env ?S ''left'' (fs (demo_world installed_tree))
                              = Inl (PackageNotFound p)) \<or>
      (upgrade ?S \<and> (\<exists>package. find_package demo_env ?S ''left'' (fs (demo_world installed_tree))
                               = Inr package))"
    by blast
  from install_from_registry_never_returns
         [OF past, of "\<lambda>archive expect w. (Inr True, w)" "''*''"
            "\<lparr> info_name = ''left'', info_version = ''2.0.0'' \<rparr>" "''left-2.0.0.tar.gz''"]
    h1 h2 h3
  show ?thesis by simp
qed

text \<open>
  The package \<open>ghost\<close> is not installed and the registry does not know it: the call gets
  past the check and ends in the registry's error, not in a NameError.
\<close>

theorem install_from_registry_registry_error_counterexample:
  "find_package demo_env (Installer demo_env None False False False) ''ghost''
     (fs (demo_world installed_tree)) = Inl (PackageNotFound ''ghost'') \<and>
   fst (install_from_registry demo_env (\<lambda>archive expect w. (Inr True, w))
          (Installer demo_env None False False False) ''ghost'' ''*'' (demo_world installed_tree))
     = Inl (OtherError ''not on the registry'') \<and>
   fst (install_from_registry demo_env (\<lambda>archive expect w. (Inr True, w))
          (Installer demo_env None False False False) ''ghost'' ''*'' (demo_world installed_tree))
     \<noteq> Inl (NameError ''download'')"
  by code_simp

text \<open>
  C4. When the package is found installed and upgrade mode is off, \<open>install_from_registry\<close>
  returns True and changes nothing but the output: the file system is as before, no
  request has gone to the registry, and \<open>self.install_from_archive\<close> has not been called
  (the result is the same for every \<open>ifa\<close>). When the installed version does not satisfy
  the selector, the only difference is the warning line printed first.
\<close>

theorem install_from_registry_already_installed:
  assumes "find_package env self package_name (fs w) = Inr package" and "\<not> upgrade self"
  shows "install_from_registry env ifa self package_name sel w =
           (Inr True,
            w\<lparr>out := out w
                 @ (if \<not> matches env sel (version package)
                    then [''  Warning: Dependency \"'' @ package_name @ ''@'' @ sel
                          @ ''\" unsatisfied, have \"'' @ ident package @ ''\" installed'']
                    else [])
                 @ [''package \"'' @ name package @ ''@'' @ version package
                    @ ''\" already installed, specify --upgrade'']\<rparr>)"
  using assms by (simp add: install_from_registry_def Let_def print_def)

theorem install_from_registry_already_installed_witness:
  "find_package demo_env (Installer demo_env None False False False) ''lib''
     (fs (demo_world installed_tree)) = Inr (demo_manifest ''ppy_modules/lib'' ''lib'') \<and>
   \<not> upgrade (Installer demo_env None False False False) \<and>
   \<not> matches demo_env ''2.0.0'' (version (demo_manifest ''ppy_modules/lib'' ''lib'')) \<and>
   install_from_registry demo_env (\<lambda>archive expect w. (Inr False, w))
       (Installer demo_env None False False False) ''lib'' ''2.0.0'' (demo_world installed_tree) =
     (Inr True,
      (demo_world installed_tree)
        \<lparr>out := [''  Warning: Dependency \"lib@2.0.0\" unsatisfied, have \"lib@1.0.0\" installed'',
                 ''package \"lib@1.0.0\" already installed, specify --upgrade'']\<rparr>)"
proof -
  have h1: "find_package demo_env (Installer demo_env None False False False) ''lib''
     (fs (demo_world installed_tree)) = Inr (demo_manifest ''ppy_modules/lib'' ''lib'')"
    by code_simp
  have h2: "\<not> upgrade (Installer demo_env None False False False)"
    by (simp add: Installer_def)
  have h3: "\<not> matches demo_env ''2.0.0'' (version (demo_manifest ''ppy_modules/lib'' ''lib''))"
    by (simp add: demo_env_def demo_host_def demo_manifest_def)
  from install_from_registry_already_installed
         [OF h1 h2, of "\<lambda>archive expect w. (Inr False, w)" "''2.0.0''"] h1 h2 h3
  show ?thesis by (simp add: demo_manifest_def demo_world_def)
qed

subsection \<open>Installing from a directory\<close>




lemma uninstall_directory_fails_by_raising:
  "fst (uninstall_directory env self dir w) \<noteq> Inr False"
  by (auto simp: uninstall_directory_def Let_def load_global_ext
           split: sum.splits exn.splits prod.splits if_splits)



subsection \<open>The installed files and the ledger\<close>




text \<open>
  On a tree that the loop body leaves as it is, the loop runs its body for the pairs of
  \<open>walk_package_files\<close>, in their order.
\<close>

lemma for_walk_package_files_unchanged_tree:
  "fst (for_walk_package_files demo_env (demo_manifest ''/src/hooked'' ''hooked'')
          (recording (\<lambda>src rel a w. (Inr a, w))) ((), []) (demo_world hooked_tree))
     = Inr ((), walk_package_files demo_env (demo_manifest ''/src/hooked'' ''hooked'') hooked_tree) \<and>
   fst (for_walk_package_files demo_env (demo_manifest ''/pkg'' ''demo'')
          (recording (\<lambda>src rel a w. (Inr a, w))) ((), []) (demo_world txt_package_tree))
     = Inr ((), walk_package_files demo_env (demo_manifest ''/pkg'' ''demo'') txt_package_tree)"
  by code_simp
























subsection \<open>Dependencies\<close>







subsection \<open>The install command\<close>

text \<open>
  The command function builds \<open>Installer(upgrade=upgrade, global_=global_)\<close> and calls, on
  an existing directory, \<open>install_from_directory\<close>; otherwise, on an existing file,
  \<open>install_from_archive\<close>; otherwise it parses the argument as a reference string and
  calls \<open>install_from_registry\<close> with the selector given, or \<open>*\<close> when none is. When the
  method called returns False the function prints "Installation failed" and returns 1;
  when it returns True the function returns 0.
\<close>

lemma install_dispatch:
  "upgrade (Installer env None upgrade_opt global_opt False) = upgrade_opt \<and>
   global_flag (Installer env None upgrade_opt global_opt False) = global_opt \<and>
   (isdir (cwd env) (fs w) package \<and>
    ifd (Installer env None upgrade_opt global_opt False) package None w = (Inr ok, w1) \<longrightarrow>
      install env ifd ifa ifr package upgrade_opt global_opt w =
        (if ok then (Inr 0, w1) else (Inr 1, print ''Installation failed'' w1))) \<and>
   (\<not> isdir (cwd env) (fs w) package \<and> isfile (cwd env) (fs w) package \<and>
    ifa (Installer env None upgrade_opt global_opt False) package None w = (Inr ok, w1) \<longrightarrow>
      install env ifd ifa ifr package upgrade_opt global_opt w =
        (if ok then (Inr 0, w1) else (Inr 1, print ''Installation failed'' w1))) \<and>
   (\<not> isdir (cwd env) (fs w) package \<and> \<not> isfile (cwd env) (fs w) package \<and>
    refstring_parse env package = Inr rf \<and>
    ifr (Installer env None upgrade_opt global_opt False) (ref_package rf)
        (case ref_version rf of Some s \<Rightarrow> s | None \<Rightarrow> ''*'') w = (Inr ok, w1) \<longrightarrow>
      install env ifd ifa ifr package upgrade_opt global_opt w =
        (if ok then (Inr 0, w1) else (Inr 1, print ''Installation failed'' w1)))"
  by (simp add: install_def Let_def Installer_def)

lemma install_dispatch_examples:
  "isdir (cwd demo_env) (fs (demo_world installed_tree)) ''/src/lib'' \<and>
   fst (demo_ifd (Installer demo_env None False False False) ''/src/lib'' None
          (demo_world installed_tree)) = Inr True \<and>
   install demo_env demo_ifd demo_ifa demo_ifr ''/src/lib'' False False (demo_world installed_tree)
     = (Inr 0, snd (demo_ifd (Installer demo_env None False False False) ''/src/lib'' None
                      (demo_world installed_tree))) \<and>
   \<not> isdir (cwd demo_env) (fs (demo_world installed_tree)) ''lib.tar'' \<and>
   isfile (cwd demo_env) (fs (demo_world installed_tree)) ''lib.tar'' \<and>
   fst (demo_ifa (Installer demo_env None False False False) ''lib.tar'' None
          (demo_world installed_tree)) = Inr False \<and>
   install demo_env demo_ifd demo_ifa demo_ifr ''lib.tar'' False False (demo_world installed_tree)
     = (Inr 1, print ''Installation failed''
                 (snd (demo_ifa (Installer demo_env None False False False) ''lib.tar'' None
                         (demo_world installed_tree)))) \<and>
   \<not> isdir (cwd demo_env) (fs (demo_world installed_tree)) ''lib'' \<and>
   \<not> isfile (cwd demo_env) (fs (demo_world installed_tree)) ''lib'' \<and>
   refstring_parse demo_env ''lib'' = Inr \<lparr> ref_package = ''lib'', ref_version = None \<rparr> \<and>
   fst (demo_ifr (Installer demo_env None False False False) ''lib'' ''*''
          (demo_world installed_tree)) = Inr True \<and>
   install demo_env demo_ifd demo_ifa demo_ifr ''lib'' False False (demo_world installed_tree)
     = (Inr 0, snd (demo_ifr (Installer demo_env None False False False) ''lib'' ''*''
                      (demo_world installed_tree)))"
proof -
  let ?S = "Installer demo_env None False False False"
  let ?W = "demo_world installed_tree"
  have d1: "isdir (cwd demo_env) (fs ?W) ''/src/lib''" by code_simp
  have d2: "fst (demo_ifd ?S ''/src/lib'' None ?W) = Inr True" by code_simp
  have a1: "\<not> isdir (cwd demo_env) (fs ?W) ''lib.tar''" by code_simp
  have a2: "isfile (cwd demo_env) (fs ?W) ''lib.tar''" by code_simp
  have a3: "fst (demo_ifa ?S ''lib.tar'' None ?W) = Inr False" by code_simp
  have r1: "\<not> isdir (cwd demo_env) (fs ?W) ''lib''" by code_simp
  have r2: "\<not> isfile (cwd demo_env) (fs ?W) ''lib''" by code_simp
  have r3: "refstring_parse demo_env ''lib'' = Inr \<lparr> ref_package = ''lib'', ref_version = None \<rparr>"
    by (simp add: demo_env_def demo_host_def)
  have r4: "fst (demo_ifr ?S ''lib'' ''*'' ?W) = Inr True" by code_simp
  have pd: "demo_ifd ?S ''/src/lib'' None ?W = (Inr True, snd (demo_ifd ?S ''/src/lib'' None ?W))"
    using d2 by (simp add: prod_eq_iff)
  have pa: "demo_ifa ?S ''lib.tar'' None ?W = (Inr False, snd (demo_ifa ?S ''lib.tar'' None ?W))"
    using a3 by (simp add: prod_eq_iff)
  have pr: "demo_ifr ?S ''lib'' ''*'' ?W = (Inr True, snd (demo_ifr ?S ''lib'' ''*'' ?W))"
    using r4 by (simp add: prod_eq_iff)
  from install_dispatch
         [where env = demo_env and upgrade_opt = False and global_opt = False and w = ?W
            and package = "''/src/lib''" and ifd = demo_ifd and ifa = demo_ifa and ifr = demo_ifr
            and ok = True and ?w1.0 = "snd (demo_ifd ?S ''/src/lib'' None ?W)"]
       d1 pd
  have c1: "install demo_env demo_ifd demo_ifa demo_ifr ''/src/lib'' False False ?W
              = (Inr 0, snd (demo_ifd ?S ''/src/lib'' None ?W))"
    by simp
  from install_dispatch
         [where env = demo_env and upgrade_opt = False and global_opt = False and w = ?W
            and package = "''lib.tar''" and ifd = demo_ifd and ifa = demo_ifa and ifr = demo_ifr
            and ok = False and ?w1.0 = "snd (demo_ifa ?S ''lib.tar'' None ?W)"]
       a1 a2 pa
  have c2: "install demo_env demo_ifd demo_ifa demo_ifr ''lib.tar'' False False ?W
              = (Inr 1, print ''Installation failed'' (snd (demo_ifa ?S ''lib.tar'' None ?W)))"
    by simp
  from install_dispatch
         [where env = demo_env and upgrade_opt = False and global_opt = False and w = ?W
            and package = "''lib''" and ifd = demo_ifd and ifa = demo_ifa and ifr = demo_ifr
            and ok = True and ?w1.0 = "snd (demo_ifr ?S ''lib'' ''*'' ?W)"
            and rf = "\<lparr> ref_package = ''lib'', ref_version = None \<rparr>"]
       r1 r2 r3 pr
  have c3: "install demo_env demo_ifd demo_ifa demo_ifr ''lib'' False False ?W
              = (Inr 0, snd (demo_ifr ?S ''lib'' ''*'' ?W))"
    by simp
  from d1 d2 c1 a1 a2 a3 c2 r1 r2 r3 r4 c3 show ?thesis by (intro conjI)
qed

text \<open>
  C6. The dispatch is as the claim says (\<open>install_dispatch\<close>). The exit status is not.
  The command function reports a failure by \<open>return 1\<close> (line 57), and the value a click
  command returns is not the status of the process: run as a program, click calls the
  function, discards what it returns and exits with status 0 (\<open>click_standalone\<close>; the
  \<open>upload\<close> command of the same module calls \<open>exit(1)\<close>, lines 106 and 123, which does set
  the status). So whenever the command function returns 1, "Installation failed" is the
  last line printed and the process ends with status 0, where the claim says 1.
\<close>

theorem install_failure_exits_zero:
  assumes "fst (install env ifd ifa ifr package upgrade_opt global_opt w) = Inr 1"
  shows "last (out (snd (install env ifd ifa ifr package upgrade_opt global_opt w)))
           = ''Installation failed'' \<and>
         click_standalone env (install env ifd ifa ifr package upgrade_opt global_opt) w
           = (0, snd (install env ifd ifa ifr package upgrade_opt global_opt w))"
proof -
  obtain r w1 where run: "install env ifd ifa ifr package upgrade_opt global_opt w = (r, w1)"
    by (cases "install env ifd ifa ifr package upgrade_opt global_opt w")
  with assms have r: "r = Inr 1" by simp
  have "last (out w1) = ''Installation failed''"
    using run r
    by (auto simp: install_def Let_def print_def split: prod.splits sum.splits if_splits)
  moreover have "click_standalone env (install env ifd ifa ifr package upgrade_opt global_opt) w
                   = (0, w1)"
    using run r by (simp add: click_standalone_def)
  ultimately show ?thesis using run by simp
qed

theorem install_failure_exits_zero_witness:
  "isdir (cwd demo_env) (fs (demo_world installed_tree)) ''/src'' \<and>
   fst (demo_ifd (Installer demo_env None False False False) ''/src'' None
          (demo_world installed_tree)) = Inr False \<and>
   fst (install demo_env demo_ifd demo_ifa demo_ifr ''/src'' False False
          (demo_world installed_tree)) = Inr 1 \<and>
   last (out (snd (install demo_env demo_ifd demo_ifa demo_ifr ''/src'' False False
                     (demo_world installed_tree)))) = ''Installation failed'' \<and>
   fst (click_standalone demo_env
          (install demo_env demo_ifd demo_ifa demo_ifr ''/src'' False False)
          (demo_world installed_tree)) = 0"
proof -
  let ?S = "Installer demo_env None False False False"
  let ?W = "demo_world installed_tree"
  have d: "isdir (cwd demo_env) (fs ?W) ''/src''" by code_simp
  have f: "fst (demo_ifd ?S ''/src'' None ?W) = Inr False" by code_simp
  have r: "fst (install demo_env demo_ifd demo_ifa demo_ifr ''/src'' False False ?W) = Inr 1"
    by code_simp
  from install_failure_exits_zero [OF r] d f r show ?thesis by simp
qed

end
